theory Spec2Isabelle
  imports Main
begin

section \<open>Data model of package data\<close>

text \<open>
  The enumerations of the CloudFormation SDK are Go string types
  (\<^verbatim>\<open>type ResourceStatus string\<close>): each becomes a datatype wrapping the
  string, so that two enumerations stay different types while every string
  remains a possible value. The zero value of each is the empty string.
\<close>

datatype ResourceStatus = ResourceStatusOf string
datatype StackStatus = StackStatusOf string
datatype Replacement = ReplacementOf string
datatype ChangeAction = ChangeActionOf string
datatype DisplayRowSource = DisplayRowSourceOf string

subsection \<open>Constants of the SDK used by the status tables\<close>

definition ResourceStatusCreateInProgress :: ResourceStatus where
  "ResourceStatusCreateInProgress = ResourceStatusOf ''CREATE_IN_PROGRESS''"
definition ResourceStatusCreateFailed :: ResourceStatus where
  "ResourceStatusCreateFailed = ResourceStatusOf ''CREATE_FAILED''"
definition ResourceStatusCreateComplete :: ResourceStatus where
  "ResourceStatusCreateComplete = ResourceStatusOf ''CREATE_COMPLETE''"
definition ResourceStatusDeleteInProgress :: ResourceStatus where
  "ResourceStatusDeleteInProgress = ResourceStatusOf ''DELETE_IN_PROGRESS''"
definition ResourceStatusDeleteFailed :: ResourceStatus where
  "ResourceStatusDeleteFailed = ResourceStatusOf ''DELETE_FAILED''"
definition ResourceStatusDeleteComplete :: ResourceStatus where
  "ResourceStatusDeleteComplete = ResourceStatusOf ''DELETE_COMPLETE''"
definition ResourceStatusUpdateInProgress :: ResourceStatus where
  "ResourceStatusUpdateInProgress = ResourceStatusOf ''UPDATE_IN_PROGRESS''"
definition ResourceStatusUpdateFailed :: ResourceStatus where
  "ResourceStatusUpdateFailed = ResourceStatusOf ''UPDATE_FAILED''"
definition ResourceStatusUpdateComplete :: ResourceStatus where
  "ResourceStatusUpdateComplete = ResourceStatusOf ''UPDATE_COMPLETE''"

definition StackStatusCreateInProgress :: StackStatus where
  "StackStatusCreateInProgress = StackStatusOf ''CREATE_IN_PROGRESS''"
definition StackStatusCreateFailed :: StackStatus where
  "StackStatusCreateFailed = StackStatusOf ''CREATE_FAILED''"
definition StackStatusCreateComplete :: StackStatus where
  "StackStatusCreateComplete = StackStatusOf ''CREATE_COMPLETE''"
definition StackStatusRollbackInProgress :: StackStatus where
  "StackStatusRollbackInProgress = StackStatusOf ''ROLLBACK_IN_PROGRESS''"
definition StackStatusRollbackFailed :: StackStatus where
  "StackStatusRollbackFailed = StackStatusOf ''ROLLBACK_FAILED''"
definition StackStatusRollbackComplete :: StackStatus where
  "StackStatusRollbackComplete = StackStatusOf ''ROLLBACK_COMPLETE''"
definition StackStatusDeleteInProgress :: StackStatus where
  "StackStatusDeleteInProgress = StackStatusOf ''DELETE_IN_PROGRESS''"
definition StackStatusDeleteFailed :: StackStatus where
  "StackStatusDeleteFailed = StackStatusOf ''DELETE_FAILED''"
definition StackStatusDeleteComplete :: StackStatus where
  "StackStatusDeleteComplete = StackStatusOf ''DELETE_COMPLETE''"
definition StackStatusUpdateInProgress :: StackStatus where
  "StackStatusUpdateInProgress = StackStatusOf ''UPDATE_IN_PROGRESS''"
definition StackStatusUpdateCompleteCleanupInProgress :: StackStatus where
  "StackStatusUpdateCompleteCleanupInProgress =
     StackStatusOf ''UPDATE_COMPLETE_CLEANUP_IN_PROGRESS''"
definition StackStatusUpdateComplete :: StackStatus where
  "StackStatusUpdateComplete = StackStatusOf ''UPDATE_COMPLETE''"
definition StackStatusUpdateRollbackInProgress :: StackStatus where
  "StackStatusUpdateRollbackInProgress = StackStatusOf ''UPDATE_ROLLBACK_IN_PROGRESS''"
definition StackStatusUpdateRollbackFailed :: StackStatus where
  "StackStatusUpdateRollbackFailed = StackStatusOf ''UPDATE_ROLLBACK_FAILED''"
definition StackStatusUpdateRollbackCompleteCleanupInProgress :: StackStatus where
  "StackStatusUpdateRollbackCompleteCleanupInProgress =
     StackStatusOf ''UPDATE_ROLLBACK_COMPLETE_CLEANUP_IN_PROGRESS''"
definition StackStatusUpdateRollbackComplete :: StackStatus where
  "StackStatusUpdateRollbackComplete = StackStatusOf ''UPDATE_ROLLBACK_COMPLETE''"
definition StackStatusReviewInProgress :: StackStatus where
  "StackStatusReviewInProgress = StackStatusOf ''REVIEW_IN_PROGRESS''"

definition ChangeActionRemove :: ChangeAction where
  "ChangeActionRemove = ChangeActionOf ''Remove''"

subsection \<open>The status tables\<close>

definition PositiveEventStatus :: "ResourceStatus list" where
  "PositiveEventStatus =
     [ResourceStatusCreateComplete,
      ResourceStatusDeleteComplete,
      ResourceStatusUpdateComplete]"

definition NegativeEventStatus :: "ResourceStatus list" where
  "NegativeEventStatus =
     [ResourceStatusCreateFailed,
      ResourceStatusDeleteFailed,
      ResourceStatusUpdateFailed]"

definition PendingEventStatus :: "ResourceStatus list" where
  "PendingEventStatus =
     [ResourceStatusCreateInProgress,
      ResourceStatusDeleteInProgress,
      ResourceStatusUpdateInProgress]"

definition PositiveStackStatus :: "StackStatus list" where
  "PositiveStackStatus =
     [StackStatusCreateComplete,
      StackStatusDeleteComplete,
      StackStatusUpdateComplete,
      StackStatusRollbackComplete]"

definition NegativeStackStatus :: "StackStatus list" where
  "NegativeStackStatus =
     [StackStatusCreateFailed,
      StackStatusDeleteFailed,
      StackStatusUpdateRollbackComplete,
      StackStatusUpdateRollbackFailed,
      StackStatusRollbackFailed]"

definition PendingStackStatus :: "StackStatus list" where
  "PendingStackStatus =
     [StackStatusCreateInProgress,
      StackStatusDeleteInProgress,
      StackStatusUpdateInProgress,
      StackStatusReviewInProgress,
      StackStatusUpdateRollbackInProgress,
      StackStatusRollbackInProgress,
      StackStatusUpdateCompleteCleanupInProgress,
      StackStatusUpdateRollbackCompleteCleanupInProgress]"

definition RollbackStackStatus :: "StackStatus list" where
  "RollbackStackStatus = [StackStatusRollbackInProgress]"

text \<open>
  The nine resource statuses the tables classify, indexed by the operation and
  by how it stands: \<open>resource_status\<close> names the SDK constant of each pair.
\<close>

datatype operation = Create | Delete | Update
datatype standing = Complete | Failed | InProgress

fun resource_status :: "operation \<Rightarrow> standing \<Rightarrow> ResourceStatus" where
  "resource_status Create Complete = ResourceStatusCreateComplete"
| "resource_status Create Failed = ResourceStatusCreateFailed"
| "resource_status Create InProgress = ResourceStatusCreateInProgress"
| "resource_status Delete Complete = ResourceStatusDeleteComplete"
| "resource_status Delete Failed = ResourceStatusDeleteFailed"
| "resource_status Delete InProgress = ResourceStatusDeleteInProgress"
| "resource_status Update Complete = ResourceStatusUpdateComplete"
| "resource_status Update Failed = ResourceStatusUpdateFailed"
| "resource_status Update InProgress = ResourceStatusUpdateInProgress"

text \<open>
  Modelled from the spec: the termination rule of the Lifecycle Poller, whose
  code is not among the sources. The poller stops when the current stack status
  is in Positive \<open>\<union>\<close> Negative.
\<close>

definition stop_polling :: "StackStatus \<Rightarrow> bool" where
  "stop_polling s \<longleftrightarrow> s \<in> set PositiveStackStatus \<union> set NegativeStackStatus"

subsection \<open>Records of the SDK and the display row\<close>

text \<open>
  The SDK's records hold most fields behind pointers; a pointer field is an
  \<open>option\<close>, \<open>None\<close> being nil. \<open>time.Time\<close> is an instant, counted from
  the zero value of the type.
\<close>

type_synonym Time = int

record ResourceChange =
  Action :: ChangeAction
  LogicalResourceId :: "string option"
  PhysicalResourceId :: "string option"
  Replacement :: Replacement
  ResourceType :: "string option"

record Change =
  ResourceChange :: "ResourceChange option"
  Type :: string

record StackEvent =
  EventId :: "string option"
  LogicalResourceId :: "string option"
  PhysicalResourceId :: "string option"
  ResourceStatus :: ResourceStatus
  ResourceStatusReason :: "string option"
  ResourceType :: "string option"
  Timestamp :: "Time option"

record StackResourceSummary =
  LastUpdatedTimestamp :: "Time option"
  LogicalResourceId :: "string option"
  PhysicalResourceId :: "string option"
  ResourceStatus :: ResourceStatus
  ResourceStatusReason :: "string option"
  ResourceType :: "string option"

record Tag =
  Key :: "string option"
  Value :: "string option"

record Parameter =
  ParameterKey :: "string option"
  ParameterValue :: "string option"
  ResolvedValue :: "string option"
  UsePreviousValue :: "bool option"

record DisplayRow =
  LogicalResourceID :: string
  ResourceType :: string
  Status :: ResourceStatus
  Timestamp :: Time
  StatusReason :: string
  Replacement :: Replacement
  Action :: ChangeAction
  Source :: DisplayRowSource
  Active :: bool

record StackInfo =
  StackID :: string
  ChangeSetName :: string
  StackName :: string

definition DisplayRowSourceChangeSet :: DisplayRowSource where
  "DisplayRowSourceChangeSet = DisplayRowSourceOf ''change''"

definition DisplayRowSourceEvent :: DisplayRowSource where
  "DisplayRowSourceEvent = DisplayRowSourceOf ''event''"

definition CloudformationStackResource :: string where
  "CloudformationStackResource = ''AWS::CloudFormation::Stack''"

subsection \<open>Panics\<close>

text \<open>
  Reading through a nil pointer stops a Go program with a run-time panic. A
  function that can panic returns \<open>panic + 'a\<close>, \<open>Inl\<close> being the panic.
\<close>

datatype panic = NilPointerDereference | AssignmentToNilMap

fun deref :: "'a option \<Rightarrow> panic + 'a" where
  "deref None = Inl NilPointerDereference"
| "deref (Some v) = Inr v"

subsection \<open>The row normalizer\<close>

text \<open>
  The fields of a composite literal are evaluated in the order they are
  written; a field the literal leaves out has the zero value of its type.
\<close>

definition CreateDisplayRowFromChange :: "Change \<Rightarrow> bool \<Rightarrow> panic + DisplayRow" where
  "CreateDisplayRowFromChange change active =
     (case deref (Change.ResourceChange change) of
        Inl p \<Rightarrow> Inl p
      | Inr rc \<Rightarrow>
     (case deref (ResourceChange.LogicalResourceId rc) of
        Inl p \<Rightarrow> Inl p
      | Inr logicalID \<Rightarrow>
     (case deref (ResourceChange.ResourceType rc) of
        Inl p \<Rightarrow> Inl p
      | Inr resourceType \<Rightarrow>
          Inr \<lparr>LogicalResourceID = logicalID,
               DisplayRow.ResourceType = resourceType,
               Status = ResourceStatusOf [],
               DisplayRow.Timestamp = 0,
               StatusReason = [],
               DisplayRow.Replacement = ResourceChange.Replacement rc,
               DisplayRow.Action = ResourceChange.Action rc,
               Source = DisplayRowSourceChangeSet,
               Active = active\<rparr>)))"

definition CreateDisplayRowFromEvent :: "StackEvent \<Rightarrow> panic + DisplayRow" where
  "CreateDisplayRowFromEvent event =
     (case deref (StackEvent.LogicalResourceId event) of
        Inl p \<Rightarrow> Inl p
      | Inr logicalID \<Rightarrow>
     (case deref (StackEvent.ResourceType event) of
        Inl p \<Rightarrow> Inl p
      | Inr resourceType \<Rightarrow>
     (case deref (StackEvent.Timestamp event) of
        Inl p \<Rightarrow> Inl p
      | Inr timestamp \<Rightarrow>
          Inr \<lparr>LogicalResourceID = logicalID,
               DisplayRow.ResourceType = resourceType,
               Status = StackEvent.ResourceStatus event,
               DisplayRow.Timestamp = timestamp,
               StatusReason = [],
               DisplayRow.Replacement = ReplacementOf [],
               DisplayRow.Action = ChangeActionOf [],
               Source = DisplayRowSourceEvent,
               Active = False\<rparr>)))"

definition CreateDisplayRowFromResource :: "StackResourceSummary \<Rightarrow> panic + DisplayRow" where
  "CreateDisplayRowFromResource resource =
     (case deref (StackResourceSummary.LogicalResourceId resource) of
        Inl p \<Rightarrow> Inl p
      | Inr logicalID \<Rightarrow>
     (case deref (StackResourceSummary.ResourceType resource) of
        Inl p \<Rightarrow> Inl p
      | Inr resourceType \<Rightarrow>
          Inr \<lparr>LogicalResourceID = logicalID,
               DisplayRow.ResourceType = resourceType,
               Status = ResourceStatusOf [],
               DisplayRow.Timestamp = 0,
               StatusReason = [],
               DisplayRow.Replacement = ReplacementOf [],
               DisplayRow.Action = ChangeActionRemove,
               Source = DisplayRowSourceOf [],
               Active = False\<rparr>))"

subsection \<open>The row maps\<close>

text \<open>
  A Go map from string to \<open>DisplayRow\<close> holds a partial function. Each loop
  runs over the slice in order and stores into the map it made; the key on the
  left of the assignment is evaluated before the call on the right.
\<close>

type_synonym row_map = "string \<rightharpoonup> DisplayRow"

fun ChangeMap_loop :: "Change list \<Rightarrow> bool \<Rightarrow> row_map \<Rightarrow> panic + row_map" where
  "ChangeMap_loop [] active mapChanges = Inr mapChanges"
| "ChangeMap_loop (change # changes) active mapChanges =
     (case deref (Change.ResourceChange change) of
        Inl p \<Rightarrow> Inl p
      | Inr rc \<Rightarrow>
     (case deref (ResourceChange.LogicalResourceId rc) of
        Inl p \<Rightarrow> Inl p
      | Inr key \<Rightarrow>
     (case CreateDisplayRowFromChange change active of
        Inl p \<Rightarrow> Inl p
      | Inr row \<Rightarrow> ChangeMap_loop changes active (mapChanges(key \<mapsto> row)))))"

definition ChangeMap :: "Change list \<Rightarrow> bool \<Rightarrow> panic + row_map" where
  "ChangeMap changes active = ChangeMap_loop changes active Map.empty"

fun EventMap_loop :: "StackEvent list \<Rightarrow> row_map \<Rightarrow> panic + row_map" where
  "EventMap_loop [] mapEvents = Inr mapEvents"
| "EventMap_loop (event # events) mapEvents =
     (case deref (StackEvent.LogicalResourceId event) of
        Inl p \<Rightarrow> Inl p
      | Inr key \<Rightarrow>
     (case CreateDisplayRowFromEvent event of
        Inl p \<Rightarrow> Inl p
      | Inr row \<Rightarrow> EventMap_loop events (mapEvents(key \<mapsto> row))))"

definition EventMap :: "StackEvent list \<Rightarrow> panic + row_map" where
  "EventMap events = EventMap_loop events Map.empty"

fun ResourceMap_loop :: "StackResourceSummary list \<Rightarrow> row_map \<Rightarrow> panic + row_map" where
  "ResourceMap_loop [] mapResources = Inr mapResources"
| "ResourceMap_loop (resource # resources) mapResources =
     (case deref (StackResourceSummary.LogicalResourceId resource) of
        Inl p \<Rightarrow> Inl p
      | Inr key \<Rightarrow>
     (case CreateDisplayRowFromResource resource of
        Inl p \<Rightarrow> Inl p
      | Inr row \<Rightarrow> ResourceMap_loop resources (mapResources(key \<mapsto> row))))"

definition ResourceMap :: "StackResourceSummary list \<Rightarrow> panic + row_map" where
  "ResourceMap resources = ResourceMap_loop resources Map.empty"

text \<open>The logical id a record carries, if it carries one.\<close>

definition change_id :: "Change \<Rightarrow> string option" where
  "change_id change =
     (case Change.ResourceChange change of
        None \<Rightarrow> None
      | Some rc \<Rightarrow> ResourceChange.LogicalResourceId rc)"

definition change_type :: "Change \<Rightarrow> string option" where
  "change_type change =
     (case Change.ResourceChange change of
        None \<Rightarrow> None
      | Some rc \<Rightarrow> ResourceChange.ResourceType rc)"

text \<open>
  The last entry of a slice whose key is \<open>k\<close>, and the common shape of the
  three loops above: the key and the conversion are what differs between them.
\<close>

fun last_with :: "('a \<Rightarrow> string option) \<Rightarrow> string \<Rightarrow> 'a list \<Rightarrow> 'a option" where
  "last_with key k [] = None"
| "last_with key k (x # xs) =
     (case last_with key k xs of
        Some y \<Rightarrow> Some y
      | None \<Rightarrow> if key x = Some k then Some x else None)"

fun build_rows ::
  "('a \<Rightarrow> string option) \<Rightarrow> ('a \<Rightarrow> panic + DisplayRow) \<Rightarrow> 'a list \<Rightarrow> row_map
    \<Rightarrow> panic + row_map" where
  "build_rows key conv [] m = Inr m"
| "build_rows key conv (x # xs) m =
     (case deref (key x) of
        Inl p \<Rightarrow> Inl p
      | Inr k \<Rightarrow>
     (case conv x of
        Inl p \<Rightarrow> Inl p
      | Inr row \<Rightarrow> build_rows key conv xs (m(k \<mapsto> row))))"

subsection \<open>Sample records\<close>

definition sample_event :: StackEvent where
  "sample_event =
     \<lparr>EventId = Some ''e-1'',
      StackEvent.LogicalResourceId = Some ''Bucket'',
      StackEvent.PhysicalResourceId = None,
      StackEvent.ResourceStatus = ResourceStatusCreateFailed,
      StackEvent.ResourceStatusReason = Some ''Access denied'',
      StackEvent.ResourceType = Some ''AWS::S3::Bucket'',
      StackEvent.Timestamp = Some 1600000000\<rparr>"

definition sample_change :: Change where
  "sample_change =
     \<lparr>ResourceChange = Some
        \<lparr>ResourceChange.Action = ChangeActionOf ''Add'',
         ResourceChange.LogicalResourceId = Some ''Bucket'',
         ResourceChange.PhysicalResourceId = None,
         ResourceChange.Replacement = ReplacementOf ''False'',
         ResourceChange.ResourceType = Some ''AWS::S3::Bucket''\<rparr>,
      Type = ''Resource''\<rparr>"

definition sample_resource :: StackResourceSummary where
  "sample_resource =
     \<lparr>LastUpdatedTimestamp = Some 1600000000,
      StackResourceSummary.LogicalResourceId = Some ''Bucket'',
      StackResourceSummary.PhysicalResourceId = Some ''bucket-1'',
      StackResourceSummary.ResourceStatus = ResourceStatusCreateComplete,
      StackResourceSummary.ResourceStatusReason = None,
      StackResourceSummary.ResourceType = Some ''AWS::S3::Bucket''\<rparr>"

definition sample_events :: "StackEvent list" where
  "sample_events =
     [sample_event\<lparr>StackEvent.ResourceStatus := ResourceStatusCreateInProgress,
                   StackEvent.Timestamp := Some 200\<rparr>,
      sample_event\<lparr>StackEvent.Timestamp := Some 100\<rparr>,
      sample_event\<lparr>StackEvent.LogicalResourceId := Some ''Queue'',
                   StackEvent.ResourceType := Some ''AWS::SQS::Queue''\<rparr>]"

definition sample_changes :: "Change list" where
  "sample_changes =
     [sample_change,
      sample_change\<lparr>ResourceChange := Some
        \<lparr>ResourceChange.Action = ChangeActionOf ''Remove'',
         ResourceChange.LogicalResourceId = Some ''Bucket'',
         ResourceChange.PhysicalResourceId = None,
         ResourceChange.Replacement = ReplacementOf ''True'',
         ResourceChange.ResourceType = Some ''AWS::S3::Bucket''\<rparr>\<rparr>]"

definition sample_resources :: "StackResourceSummary list" where
  "sample_resources =
     [sample_resource,
      sample_resource\<lparr>StackResourceSummary.LogicalResourceId := Some ''Queue'',
                      StackResourceSummary.ResourceType := Some ''AWS::SQS::Queue''\<rparr>,
      sample_resource\<lparr>StackResourceSummary.ResourceType := Some ''AWS::S3::BucketPolicy''\<rparr>]"

subsection \<open>Maps as shared objects\<close>

text \<open>
  A Go map value is a reference to a map object: two variables can hold the
  same map, and a store through one is seen through the other. Where that
  matters the map objects live in a heap, the list of the maps made so far; a
  reference is nil or the index of a map, and \<open>make\<close> appends an empty map.
  Reading a nil map finds no entry; storing into one panics.
\<close>

datatype map_ref = NilMap | MapRef nat

type_synonym heap = "row_map list"

fun valid_ref :: "heap \<Rightarrow> map_ref \<Rightarrow> bool" where
  "valid_ref h NilMap = True"
| "valid_ref h (MapRef i) = (i < length h)"

fun map_contents :: "heap \<Rightarrow> map_ref \<Rightarrow> row_map" where
  "map_contents h NilMap = Map.empty"
| "map_contents h (MapRef i) = (if i < length h then h ! i else Map.empty)"

definition make_map :: "heap \<Rightarrow> map_ref \<times> heap" where
  "make_map h = (MapRef (length h), h @ [Map.empty])"

fun map_assign :: "heap \<Rightarrow> map_ref \<Rightarrow> string \<Rightarrow> DisplayRow \<Rightarrow> panic + heap" where
  "map_assign h NilMap k v = Inl AssignmentToNilMap"
| "map_assign h (MapRef i) k v = Inr (h[i := (map_contents h (MapRef i))(k \<mapsto> v)])"

text \<open>
  \<open>ActivateDisplayRows\<close> ranges over the map it is given. Go leaves the order of
  that iteration open, so the order is a parameter: the list of the keys as
  the run visits them. The loop variable \<open>event\<close> is a copy of the entry; the
  copy is changed and stored into the new map.
\<close>

fun ActivateDisplayRows_loop ::
  "string list \<Rightarrow> map_ref \<Rightarrow> map_ref \<Rightarrow> heap \<Rightarrow> panic + heap" where
  "ActivateDisplayRows_loop [] displayRows activatedDisplayRows h = Inr h"
| "ActivateDisplayRows_loop (logicalID # rest) displayRows activatedDisplayRows h =
     (case map_contents h displayRows logicalID of
        None \<Rightarrow> ActivateDisplayRows_loop rest displayRows activatedDisplayRows h
      | Some event \<Rightarrow>
          (case map_assign h activatedDisplayRows logicalID (event\<lparr>Active := True\<rparr>) of
             Inl p \<Rightarrow> Inl p
           | Inr h' \<Rightarrow> ActivateDisplayRows_loop rest displayRows activatedDisplayRows h'))"

definition ActivateDisplayRows ::
  "heap \<Rightarrow> map_ref \<Rightarrow> string list \<Rightarrow> panic + (map_ref \<times> heap)" where
  "ActivateDisplayRows h displayRows order =
     (case make_map h of
        (activatedDisplayRows, h1) \<Rightarrow>
          (case ActivateDisplayRows_loop order displayRows activatedDisplayRows h1 of
             Inl p \<Rightarrow> Inl p
           | Inr h2 \<Rightarrow> Inr (activatedDisplayRows, h2)))"

definition sample_heap :: heap where
  "sample_heap =
     [[''Bucket'' \<mapsto>
         \<lparr>LogicalResourceID = ''Bucket'',
          DisplayRow.ResourceType = ''AWS::S3::Bucket'',
          Status = ResourceStatusCreateComplete,
          DisplayRow.Timestamp = 100,
          StatusReason = [],
          DisplayRow.Replacement = ReplacementOf [],
          DisplayRow.Action = ChangeActionOf [],
          Source = DisplayRowSourceEvent,
          Active = False\<rparr>,
       ''Queue'' \<mapsto>
         \<lparr>LogicalResourceID = ''Queue'',
          DisplayRow.ResourceType = ''AWS::SQS::Queue'',
          Status = ResourceStatusOf [],
          DisplayRow.Timestamp = 0,
          StatusReason = [],
          DisplayRow.Replacement = ReplacementOf ''False'',
          DisplayRow.Action = ChangeActionOf ''Add'',
          Source = DisplayRowSourceChangeSet,
          Active = True\<rparr>]]"

subsection \<open>The pagination collector\<close>

text \<open>
  The paginator is the SDK's. The collector uses two of its methods: \<open>Next\<close>
  sends the request for the next page and returns true with that page as the
  current page, or returns false, either because the listing is exhausted or
  because the request failed; a failure is kept in the paginator, where \<open>Err\<close>
  reads it. The paginator's state holds what the service answers to the
  requests still to come, one answer for each request; \<open>Next\<close> takes the first.
  A paginator is a pointer in Go: the collector returns it as it leaves it.
\<close>

datatype fetch_error = FetchError string

datatype response = Page "StackResourceSummary list" | Failure fetch_error

record ListStackResourcesPaginator =
  responses :: "response list"
  curPage :: "StackResourceSummary list"
  pagerErr :: "fetch_error option"

definition Next :: "ListStackResourcesPaginator \<Rightarrow> bool \<times> ListStackResourcesPaginator" where
  "Next p =
     (case responses p of
        [] \<Rightarrow> (False, p)
      | Failure e # rest \<Rightarrow> (False, p\<lparr>responses := rest, pagerErr := Some e\<rparr>)
      | Page page # rest \<Rightarrow> (True, p\<lparr>responses := rest, curPage := page\<rparr>))"

definition CurrentPage :: "ListStackResourcesPaginator \<Rightarrow> StackResourceSummary list" where
  "CurrentPage p = curPage p"

definition Err :: "ListStackResourcesPaginator \<Rightarrow> fetch_error option" where
  "Err p = pagerErr p"

function GetResourcesFromPaginator_loop ::
  "ListStackResourcesPaginator \<Rightarrow> StackResourceSummary list
    \<Rightarrow> StackResourceSummary list \<times> ListStackResourcesPaginator" where
  "GetResourcesFromPaginator_loop paginator resources =
     (case Next paginator of
        (ok, paginator') \<Rightarrow>
          if ok
          then GetResourcesFromPaginator_loop paginator' (resources @ CurrentPage paginator')
          else (resources, paginator'))"
  by pat_completeness auto
termination
  by (relation "measure (\<lambda>(paginator, resources). length (responses paginator))")
    (auto simp: Next_def split: list.splits response.splits)

definition GetResourcesFromPaginator ::
  "ListStackResourcesPaginator
    \<Rightarrow> StackResourceSummary list \<times> ListStackResourcesPaginator" where
  "GetResourcesFromPaginator paginator = GetResourcesFromPaginator_loop paginator []"

text \<open>
  What a run over a list of answers amounts to: the resources of the pages
  before the first failed request, that failure, and the answers left after it.
\<close>

fun pages_before_failure :: "response list \<Rightarrow> StackResourceSummary list" where
  "pages_before_failure [] = []"
| "pages_before_failure (Page page # rest) = page @ pages_before_failure rest"
| "pages_before_failure (Failure e # rest) = []"

fun first_failure :: "response list \<Rightarrow> fetch_error option" where
  "first_failure [] = None"
| "first_failure (Page page # rest) = first_failure rest"
| "first_failure (Failure e # rest) = Some e"

fun after_failure :: "response list \<Rightarrow> response list" where
  "after_failure [] = []"
| "after_failure (Page page # rest) = after_failure rest"
| "after_failure (Failure e # rest) = rest"

definition failing_paginator :: ListStackResourcesPaginator where
  "failing_paginator =
     \<lparr>responses =
        [Page [sample_resource],
         Failure (FetchError ''Throttling: Rate exceeded''),
         Page [sample_resource\<lparr>StackResourceSummary.LogicalResourceId := Some ''Queue''\<rparr>]],
      curPage = [],
      pagerErr = None\<rparr>"

definition short_paginator :: ListStackResourcesPaginator where
  "short_paginator = \<lparr>responses = [Page [sample_resource]], curPage = [], pagerErr = None\<rparr>"

subsection \<open>Loading tags and parameters\<close>

text \<open>
  \<open>GetTags\<close> and \<open>GetParameters\<close> call four functions from outside the file:
  \<open>ioutil.ReadFile\<close> and \<open>json.Unmarshal\<close> of the standard library, and
  \<open>colors.Error\<close> and \<open>colors.Docs\<close> of the package colors. They are
  parameters here: the reader gives the bytes of the file or an error, the
  decoder a slice or an error, and the two colouring functions a string. The
  pair returned is the slice and the error, \<open>None\<close> being a nil error; a nil
  slice and an empty one are both the empty list.
\<close>

datatype error = errorString string

definition errors_New :: "string \<Rightarrow> error" where
  "errors_New text = errorString text"

text \<open>\<^verbatim>\<open>fmt.Sprintf("%s \n %s", a, b)\<close>: a space, a line feed and a space between.\<close>

definition Sprintf_s_nl_s :: "string \<Rightarrow> string \<Rightarrow> string" where
  "Sprintf_s_nl_s a b = a @ [CHR '' '', CHR 0x0A, CHR '' ''] @ b"

definition GetTags ::
  "(string \<Rightarrow> 'e + string) \<Rightarrow> (string \<Rightarrow> 'j + Tag list)
    \<Rightarrow> (string \<Rightarrow> string) \<Rightarrow> (string \<Rightarrow> string)
    \<Rightarrow> string \<Rightarrow> Tag list \<times> error option" where
  "GetTags ReadFile Unmarshal colors_Error colors_Docs location =
     (let invalidJSON = ''Unable to load tags. tags must be valid JSON and only of type string'';
          docsMessage = ''https://docs.aws.amazon.com/AWSCloudFormation/latest/UserGuide/aws-properties-resource-tags.html'';
          errorMessage = Sprintf_s_nl_s (colors_Error invalidJSON) (colors_Docs docsMessage);
          container = []
      in case ReadFile location of
           Inl err \<Rightarrow> (container, None)
         | Inr tags \<Rightarrow>
             (case Unmarshal tags of
                Inl err \<Rightarrow> ([], Some (errors_New errorMessage))
              | Inr container' \<Rightarrow> (container', None)))"

definition GetParameters ::
  "(string \<Rightarrow> 'e + string) \<Rightarrow> (string \<Rightarrow> 'j + Parameter list)
    \<Rightarrow> (string \<Rightarrow> string) \<Rightarrow> (string \<Rightarrow> string)
    \<Rightarrow> string \<Rightarrow> Parameter list \<times> error option" where
  "GetParameters ReadFile Unmarshal colors_Error colors_Docs location =
     (let invalidJSON = ''Unable to load parameters. Parameters must be valid JSON and only of type string'';
          docsMessage = ''https://aws.amazon.com/blogs/devops/passing-parameters-to-cloudformation-stacks-with-the-aws-cli-and-powershell/'';
          errorMessage = Sprintf_s_nl_s (colors_Error invalidJSON) (colors_Docs docsMessage);
          container = []
      in case ReadFile location of
           Inl err \<Rightarrow> (container, None)
         | Inr parameters \<Rightarrow>
             (case Unmarshal parameters of
                Inl err \<Rightarrow> ([], Some (errors_New errorMessage))
              | Inr container' \<Rightarrow> (container', None)))"

text \<open>
  A file system to read from: a location holds no file, or a file with its
  contents that the process may or may not read. Reading a location that
  holds no file fails with \<open>ErrNotExist\<close>, reading a file the process may not
  read with \<open>ErrPermission\<close>.
\<close>

datatype io_error = ErrNotExist | ErrPermission

record fs_file =
  contents :: string
  readable :: bool

type_synonym filesystem = "string \<rightharpoonup> fs_file"

definition ioutil_ReadFile :: "filesystem \<Rightarrow> string \<Rightarrow> io_error + string" where
  "ioutil_ReadFile fs location =
     (case fs location of
        None \<Rightarrow> Inl ErrNotExist
      | Some f \<Rightarrow> if readable f then Inr (contents f) else Inl ErrPermission)"

text \<open>
  For the runs on concrete files: a decoder that agrees with \<open>json.Unmarshal\<close>
  on the two texts used, the empty array and a lone opening brace, and rejects
  every other text; and a file system with a file of each kind.
\<close>

datatype json_error = SyntaxError

definition decode_empty_array :: "string \<Rightarrow> json_error + 'a list" where
  "decode_empty_array text = (if text = ''[]'' then Inr [] else Inl SyntaxError)"

definition sample_fs :: filesystem where
  "sample_fs =
     [''tags.json'' \<mapsto> \<lparr>contents = ''{'', readable = True\<rparr>,
      ''locked.json'' \<mapsto> \<lparr>contents = ''{'', readable = False\<rparr>,
      ''empty.json'' \<mapsto> \<lparr>contents = ''[]'', readable = True\<rparr>]"

section \<open>The status classifier\<close>

lemmas ResourceStatus_consts =
  ResourceStatusCreateInProgress_def ResourceStatusCreateFailed_def
  ResourceStatusCreateComplete_def ResourceStatusDeleteInProgress_def
  ResourceStatusDeleteFailed_def ResourceStatusDeleteComplete_def
  ResourceStatusUpdateInProgress_def ResourceStatusUpdateFailed_def
  ResourceStatusUpdateComplete_def

lemmas StackStatus_consts =
  StackStatusCreateInProgress_def StackStatusCreateFailed_def
  StackStatusCreateComplete_def StackStatusRollbackInProgress_def
  StackStatusRollbackFailed_def StackStatusRollbackComplete_def
  StackStatusDeleteInProgress_def StackStatusDeleteFailed_def
  StackStatusDeleteComplete_def StackStatusUpdateInProgress_def
  StackStatusUpdateCompleteCleanupInProgress_def StackStatusUpdateComplete_def
  StackStatusUpdateRollbackInProgress_def StackStatusUpdateRollbackFailed_def
  StackStatusUpdateRollbackCompleteCleanupInProgress_def
  StackStatusUpdateRollbackComplete_def StackStatusReviewInProgress_def

lemma UNIV_operation: "(UNIV :: operation set) = {Create, Delete, Update}"
  using operation.exhaust by auto

lemma UNIV_standing: "(UNIV :: standing set) = {Complete, Failed, InProgress}"
  using standing.exhaust by auto

lemma inj_resource_status: "inj (\<lambda>(op, st). resource_status op st)"
proof (rule injI)
  fix x y :: "operation \<times> standing"
  assume eq: "(\<lambda>(op, st). resource_status op st) x = (\<lambda>(op, st). resource_status op st) y"
  obtain a b where x: "x = (a, b)" by (cases x)
  obtain c d where y: "y = (c, d)" by (cases y)
  from eq show "x = y"
    unfolding x y
    by (cases a; cases b; cases c; cases d) (simp_all add: ResourceStatus_consts)
qed

text \<open>
  Claim C6. The three resource-level tables partition the nine
  \{Create, Delete, Update\} \<open>\<times>\<close> \{Complete, Failed, InProgress\} statuses:
  each table is exactly the Create/Delete/Update triple of its variant, the
  nine statuses are pairwise different, the three tables together list each
  of them once and nothing else, and no two tables share a status.
\<close>

theorem event_status_partition:
  "set PositiveEventStatus = (\<lambda>op. resource_status op Complete) ` UNIV
   \<and> set NegativeEventStatus = (\<lambda>op. resource_status op Failed) ` UNIV
   \<and> set PendingEventStatus = (\<lambda>op. resource_status op InProgress) ` UNIV
   \<and> inj (\<lambda>(op, st). resource_status op st)
   \<and> set (PositiveEventStatus @ NegativeEventStatus @ PendingEventStatus)
       = range (\<lambda>(op, st). resource_status op st)
   \<and> distinct (PositiveEventStatus @ NegativeEventStatus @ PendingEventStatus)
   \<and> set PositiveEventStatus \<inter> set NegativeEventStatus = {}
   \<and> set PositiveEventStatus \<inter> set PendingEventStatus = {}
   \<and> set NegativeEventStatus \<inter> set PendingEventStatus = {}"
proof -
  have pos: "set PositiveEventStatus = (\<lambda>op. resource_status op Complete) ` UNIV"
    by (auto simp: PositiveEventStatus_def UNIV_operation)
  have neg: "set NegativeEventStatus = (\<lambda>op. resource_status op Failed) ` UNIV"
    by (auto simp: NegativeEventStatus_def UNIV_operation)
  have pen: "set PendingEventStatus = (\<lambda>op. resource_status op InProgress) ` UNIV"
    by (auto simp: PendingEventStatus_def UNIV_operation)
  have UNIV_pair: "(UNIV :: (operation \<times> standing) set) = UNIV \<times> UNIV"
    by simp
  have all: "set (PositiveEventStatus @ NegativeEventStatus @ PendingEventStatus)
       = range (\<lambda>(op, st). resource_status op st)"
    unfolding UNIV_pair UNIV_operation UNIV_standing
    by (auto simp: PositiveEventStatus_def NegativeEventStatus_def PendingEventStatus_def)
  have dist: "distinct (PositiveEventStatus @ NegativeEventStatus @ PendingEventStatus)"
    by (simp add: PositiveEventStatus_def NegativeEventStatus_def PendingEventStatus_def
        ResourceStatus_consts)
  have d1: "set PositiveEventStatus \<inter> set NegativeEventStatus = {}"
    and d2: "set PositiveEventStatus \<inter> set PendingEventStatus = {}"
    and d3: "set NegativeEventStatus \<inter> set PendingEventStatus = {}"
    using dist by auto
  from pos neg pen inj_resource_status all dist d1 d2 d3 show ?thesis
    by blast
qed

text \<open>
  Claim C8. Every status of \<open>RollbackStackStatus\<close> is in \<open>PendingStackStatus\<close>
  and in neither \<open>PositiveStackStatus\<close> nor \<open>NegativeStackStatus\<close>; hence the
  poller's termination rule does not stop on it.
\<close>

theorem rollback_status_is_pending:
  "\<forall>s \<in> set RollbackStackStatus.
     s \<notin> set PositiveStackStatus \<and> s \<notin> set NegativeStackStatus
     \<and> s \<in> set PendingStackStatus \<and> \<not> stop_polling s"
  by (simp add: RollbackStackStatus_def PositiveStackStatus_def NegativeStackStatus_def
      PendingStackStatus_def stop_polling_def StackStatus_consts)

theorem rollback_status_is_pending_witness:
  "StackStatusRollbackInProgress \<in> set RollbackStackStatus
   \<and> StackStatusRollbackInProgress \<notin> set PositiveStackStatus
   \<and> StackStatusRollbackInProgress \<notin> set NegativeStackStatus
   \<and> StackStatusRollbackInProgress \<in> set PendingStackStatus
   \<and> \<not> stop_polling StackStatusRollbackInProgress"
proof -
  have mem: "StackStatusRollbackInProgress \<in> set RollbackStackStatus"
    by (simp add: RollbackStackStatus_def)
  from rollback_status_is_pending mem show ?thesis
    by blast
qed

section \<open>The row normalizer\<close>

lemma deref_case: "deref x = (case x of None \<Rightarrow> Inl NilPointerDereference | Some v \<Rightarrow> Inr v)"
  by (cases x) auto

lemma CreateDisplayRowFromChange_Inl:
  "CreateDisplayRowFromChange change active = Inl p \<longleftrightarrow>
     p = NilPointerDereference \<and> (change_id change = None \<or> change_type change = None)"
  by (auto simp: CreateDisplayRowFromChange_def change_id_def change_type_def deref_case
      split: option.splits)

lemma CreateDisplayRowFromEvent_Inl:
  "CreateDisplayRowFromEvent event = Inl p \<longleftrightarrow>
     p = NilPointerDereference \<and>
     (StackEvent.LogicalResourceId event = None \<or> StackEvent.ResourceType event = None
      \<or> StackEvent.Timestamp event = None)"
  by (auto simp: CreateDisplayRowFromEvent_def deref_case split: option.splits)

lemma CreateDisplayRowFromResource_Inl:
  "CreateDisplayRowFromResource resource = Inl p \<longleftrightarrow>
     p = NilPointerDereference \<and>
     (StackResourceSummary.LogicalResourceId resource = None
      \<or> StackResourceSummary.ResourceType resource = None)"
  by (auto simp: CreateDisplayRowFromResource_def deref_case split: option.splits)

lemma not_Inl_Inr: "(\<forall>p. x \<noteq> Inl p) \<longleftrightarrow> (\<exists>r. x = Inr r)"
  by (cases x) auto

text \<open>
  Claim C3. A change, event or resource summary that lacks its logical id or
  its resource type, or an event that lacks its timestamp, makes its conversion
  panic with a nil pointer dereference: no row is returned, neither skipped nor
  with a default in the missing field. When the required fields are present the
  conversion returns a row. (A change lacks its logical id and type also when
  its \<open>ResourceChange\<close> pointer is nil.)
\<close>

theorem missing_field_panics:
  "(change_id change = None \<or> change_type change = None
      \<longrightarrow> CreateDisplayRowFromChange change active = Inl NilPointerDereference)
   \<and> (change_id change \<noteq> None \<and> change_type change \<noteq> None
      \<longrightarrow> (\<exists>row. CreateDisplayRowFromChange change active = Inr row))
   \<and> (StackEvent.LogicalResourceId event = None \<or> StackEvent.ResourceType event = None
        \<or> StackEvent.Timestamp event = None
      \<longrightarrow> CreateDisplayRowFromEvent event = Inl NilPointerDereference)
   \<and> (StackEvent.LogicalResourceId event \<noteq> None \<and> StackEvent.ResourceType event \<noteq> None
        \<and> StackEvent.Timestamp event \<noteq> None
      \<longrightarrow> (\<exists>row. CreateDisplayRowFromEvent event = Inr row))
   \<and> (StackResourceSummary.LogicalResourceId resource = None
        \<or> StackResourceSummary.ResourceType resource = None
      \<longrightarrow> CreateDisplayRowFromResource resource = Inl NilPointerDereference)
   \<and> (StackResourceSummary.LogicalResourceId resource \<noteq> None
        \<and> StackResourceSummary.ResourceType resource \<noteq> None
      \<longrightarrow> (\<exists>row. CreateDisplayRowFromResource resource = Inr row))"
proof -
  have c1: "change_id change = None \<or> change_type change = None
      \<longrightarrow> CreateDisplayRowFromChange change active = Inl NilPointerDereference"
    by (simp add: CreateDisplayRowFromChange_Inl)
  have c2: "change_id change \<noteq> None \<and> change_type change \<noteq> None
      \<longrightarrow> (\<exists>row. CreateDisplayRowFromChange change active = Inr row)"
    unfolding not_Inl_Inr [symmetric] by (simp add: CreateDisplayRowFromChange_Inl)
  have e1: "StackEvent.LogicalResourceId event = None \<or> StackEvent.ResourceType event = None
        \<or> StackEvent.Timestamp event = None
      \<longrightarrow> CreateDisplayRowFromEvent event = Inl NilPointerDereference"
    by (simp add: CreateDisplayRowFromEvent_Inl)
  have e2: "StackEvent.LogicalResourceId event \<noteq> None \<and> StackEvent.ResourceType event \<noteq> None
        \<and> StackEvent.Timestamp event \<noteq> None
      \<longrightarrow> (\<exists>row. CreateDisplayRowFromEvent event = Inr row)"
    unfolding not_Inl_Inr [symmetric] by (simp add: CreateDisplayRowFromEvent_Inl)
  have r1: "StackResourceSummary.LogicalResourceId resource = None
        \<or> StackResourceSummary.ResourceType resource = None
      \<longrightarrow> CreateDisplayRowFromResource resource = Inl NilPointerDereference"
    by (simp add: CreateDisplayRowFromResource_Inl)
  have r2: "StackResourceSummary.LogicalResourceId resource \<noteq> None
        \<and> StackResourceSummary.ResourceType resource \<noteq> None
      \<longrightarrow> (\<exists>row. CreateDisplayRowFromResource resource = Inr row)"
    unfolding not_Inl_Inr [symmetric] by (simp add: CreateDisplayRowFromResource_Inl)
  from c1 c2 e1 e2 r1 r2 show ?thesis by blast
qed

theorem missing_field_panics_witness:
  "CreateDisplayRowFromChange (sample_change\<lparr>ResourceChange := None\<rparr>) True
      = Inl NilPointerDereference
   \<and> (\<exists>row. CreateDisplayRowFromChange sample_change True = Inr row)
   \<and> CreateDisplayRowFromEvent (sample_event\<lparr>StackEvent.Timestamp := None\<rparr>)
      = Inl NilPointerDereference
   \<and> (\<exists>row. CreateDisplayRowFromEvent sample_event = Inr row)
   \<and> CreateDisplayRowFromResource
        (sample_resource\<lparr>StackResourceSummary.ResourceType := None\<rparr>)
      = Inl NilPointerDereference
   \<and> (\<exists>row. CreateDisplayRowFromResource sample_resource = Inr row)"
  using missing_field_panics [of "sample_change\<lparr>ResourceChange := None\<rparr>" True
      "sample_event\<lparr>StackEvent.Timestamp := None\<rparr>"
      "sample_resource\<lparr>StackResourceSummary.ResourceType := None\<rparr>"]
    missing_field_panics [of sample_change True sample_event sample_resource]
  by (simp add: sample_change_def sample_event_def sample_resource_def
      change_id_def change_type_def)

text \<open>
  Claim C7. The row \<open>CreateDisplayRowFromEvent\<close> returns has the logical id,
  the resource type, the status and the timestamp of the event, the source tag
  \<open>DisplayRowSourceEvent\<close> and \<open>Active = False\<close>; it returns a row for every
  event whose three pointer fields are set.
\<close>

theorem row_from_event:
  "(CreateDisplayRowFromEvent event = Inr row \<longrightarrow>
       Some (LogicalResourceID row) = StackEvent.LogicalResourceId event
     \<and> Some (DisplayRow.ResourceType row) = StackEvent.ResourceType event
     \<and> Status row = StackEvent.ResourceStatus event
     \<and> Some (DisplayRow.Timestamp row) = StackEvent.Timestamp event
     \<and> Source row = DisplayRowSourceEvent
     \<and> Active row = False)
   \<and> (StackEvent.LogicalResourceId event \<noteq> None \<and> StackEvent.ResourceType event \<noteq> None
        \<and> StackEvent.Timestamp event \<noteq> None
      \<longrightarrow> (\<exists>row. CreateDisplayRowFromEvent event = Inr row))"
  by (auto simp: CreateDisplayRowFromEvent_def deref_case split: option.splits)

theorem row_from_event_witness:
  "CreateDisplayRowFromEvent sample_event =
     Inr \<lparr>LogicalResourceID = ''Bucket'',
          DisplayRow.ResourceType = ''AWS::S3::Bucket'',
          Status = ResourceStatusCreateFailed,
          DisplayRow.Timestamp = 1600000000,
          StatusReason = [],
          DisplayRow.Replacement = ReplacementOf [],
          DisplayRow.Action = ChangeActionOf [],
          Source = DisplayRowSourceEvent,
          Active = False\<rparr>"
proof -
  obtain row where row: "CreateDisplayRowFromEvent sample_event = Inr row"
    using row_from_event [of sample_event] by (auto simp: sample_event_def)
  from row_from_event [of sample_event row] row
  have "LogicalResourceID row = ''Bucket''"
    "DisplayRow.ResourceType row = ''AWS::S3::Bucket''"
    "Status row = ResourceStatusCreateFailed"
    "DisplayRow.Timestamp row = 1600000000"
    "Source row = DisplayRowSourceEvent" "Active row = False"
    by (simp_all add: sample_event_def)
  moreover have "StatusReason row = []" "DisplayRow.Replacement row = ReplacementOf []"
    "DisplayRow.Action row = ChangeActionOf []" "DisplayRow.more row = ()"
    using row by (auto simp: CreateDisplayRowFromEvent_def sample_event_def deref_case)
  ultimately show ?thesis using row by (cases row) simp
qed

text \<open>
  Claim C9. Every row returned by one of the three conversions has an empty
  \<open>StatusReason\<close>, whatever status reason the record carries.
\<close>

theorem status_reason_never_set:
  "(CreateDisplayRowFromChange change active = Inr rowc \<longrightarrow> StatusReason rowc = [])
   \<and> (CreateDisplayRowFromEvent event = Inr rowe \<longrightarrow> StatusReason rowe = [])
   \<and> (CreateDisplayRowFromResource resource = Inr rowr \<longrightarrow> StatusReason rowr = [])"
  by (auto simp: CreateDisplayRowFromChange_def CreateDisplayRowFromEvent_def
      CreateDisplayRowFromResource_def deref_case split: option.splits)

theorem status_reason_never_set_witness:
  "StackEvent.ResourceStatusReason sample_event = Some ''Access denied''
   \<and> (\<exists>row. CreateDisplayRowFromChange sample_change True = Inr row \<and> StatusReason row = [])
   \<and> (\<exists>row. CreateDisplayRowFromEvent sample_event = Inr row \<and> StatusReason row = [])
   \<and> (\<exists>row. CreateDisplayRowFromResource sample_resource = Inr row
          \<and> StatusReason row = [])"
proof -
  obtain rc where rc: "CreateDisplayRowFromChange sample_change True = Inr rc"
    by (simp add: CreateDisplayRowFromChange_def sample_change_def)
  obtain re where re: "CreateDisplayRowFromEvent sample_event = Inr re"
    by (simp add: CreateDisplayRowFromEvent_def sample_event_def)
  obtain rr where rr: "CreateDisplayRowFromResource sample_resource = Inr rr"
    by (simp add: CreateDisplayRowFromResource_def sample_resource_def)
  note inst = status_reason_never_set
      [where change = sample_change and active = True and event = sample_event
        and resource = sample_resource and rowc = rc and rowe = re and rowr = rr]
  from inst [THEN conjunct1, THEN mp, OF rc] rc
  have a: "\<exists>row. CreateDisplayRowFromChange sample_change True = Inr row
      \<and> StatusReason row = []"
    by blast
  from inst [THEN conjunct2, THEN conjunct1, THEN mp, OF re] re
  have b: "\<exists>row. CreateDisplayRowFromEvent sample_event = Inr row \<and> StatusReason row = []"
    by blast
  from inst [THEN conjunct2, THEN conjunct2, THEN mp, OF rr] rr
  have c: "\<exists>row. CreateDisplayRowFromResource sample_resource = Inr row
      \<and> StatusReason row = []"
    by blast
  have d: "StackEvent.ResourceStatusReason sample_event = Some ''Access denied''"
    by (simp add: sample_event_def)
  from d a b c show ?thesis by (intro conjI)
qed

section \<open>The row maps\<close>

lemma ChangeMap_loop_build_rows:
  "ChangeMap_loop changes active m =
     build_rows change_id (\<lambda>c. CreateDisplayRowFromChange c active) changes m"
proof (induction changes arbitrary: m)
  case Nil
  show ?case by simp
next
  case (Cons change changes)
  show ?case
  proof (cases "change_id change")
    case None
    then have "deref (Change.ResourceChange change) = Inl NilPointerDereference
        \<or> (\<exists>rc. deref (Change.ResourceChange change) = Inr rc
              \<and> deref (ResourceChange.LogicalResourceId rc) = Inl NilPointerDereference)"
      by (auto simp: change_id_def deref_case split: option.splits)
    with None show ?thesis by auto
  next
    case (Some key)
    then obtain rc where "deref (Change.ResourceChange change) = Inr rc"
      and "deref (ResourceChange.LogicalResourceId rc) = Inr key"
      by (auto simp: change_id_def deref_case split: option.splits)
    note derefs = this
    show ?thesis
    proof (cases "CreateDisplayRowFromChange change active")
      case (Inl p)
      with Some derefs show ?thesis by simp
    next
      case (Inr row)
      with derefs have "ChangeMap_loop (change # changes) active m
          = ChangeMap_loop changes active (m(key \<mapsto> row))"
        by simp
      also have "\<dots> = build_rows change_id (\<lambda>c. CreateDisplayRowFromChange c active)
          changes (m(key \<mapsto> row))"
        by (rule Cons.IH)
      also have "\<dots> = build_rows change_id (\<lambda>c. CreateDisplayRowFromChange c active)
          (change # changes) m"
        using Some Inr by simp
      finally show ?thesis .
    qed
  qed
qed

lemma EventMap_loop_build_rows:
  "EventMap_loop events m =
     build_rows StackEvent.LogicalResourceId CreateDisplayRowFromEvent events m"
  by (induction events arbitrary: m) (simp_all split: sum.splits)

lemma ResourceMap_loop_build_rows:
  "ResourceMap_loop resources m =
     build_rows StackResourceSummary.LogicalResourceId CreateDisplayRowFromResource resources m"
  by (induction resources arbitrary: m) (simp_all split: sum.splits)

lemma last_with_None: "last_with key k xs = None \<longleftrightarrow> (\<forall>x \<in> set xs. key x \<noteq> Some k)"
  by (induction xs) (auto split: option.splits)

lemma last_with_Some: "last_with key k xs = Some x \<Longrightarrow> x \<in> set xs \<and> key x = Some k"
  by (induction xs) (auto split: option.splits if_splits)

lemma last_with_append:
  "last_with key k (pre @ x # post) =
     (case last_with key k post of
        Some y \<Rightarrow> Some y
      | None \<Rightarrow> if key x = Some k then Some x else last_with key k pre)"
  by (induction pre) (auto split: option.splits)

lemma last_with_is_last:
  assumes "key x = Some k" and "\<forall>y \<in> set post. key y \<noteq> Some k"
  shows "last_with key k (pre @ x # post) = Some x"
proof -
  from assms(2) have "last_with key k post = None"
    by (simp add: last_with_None)
  with assms(1) show ?thesis
    by (simp add: last_with_append)
qed

lemma build_rows_lookup:
  "build_rows key conv xs acc = Inr m \<Longrightarrow>
     map_option Inr (m k) =
       (case last_with key k xs of
          None \<Rightarrow> map_option Inr (acc k)
        | Some x \<Rightarrow> Some (conv x))"
proof (induction xs arbitrary: acc)
  case Nil
  then show ?case by simp
next
  case (Cons x xs)
  from Cons.prems obtain k' row where k': "key x = Some k'" and row: "conv x = Inr row"
    and rest: "build_rows key conv xs (acc(k' \<mapsto> row)) = Inr m"
    by (auto simp: deref_case split: option.splits sum.splits)
  from Cons.IH [OF rest] show ?case
    using k' row by (auto split: option.splits)
qed

lemma build_rows_dom:
  assumes "build_rows key conv xs Map.empty = Inr m"
  shows "dom m = {k. \<exists>x \<in> set xs. key x = Some k}"
proof -
  have "m k = None \<longleftrightarrow> last_with key k xs = None" for k
    using build_rows_lookup [OF assms, of k] by (auto split: option.splits)
  then show ?thesis
    by (auto simp: dom_def last_with_None)
qed

lemma build_rows_total:
  "\<forall>x \<in> set xs. key x \<noteq> None \<and> (\<exists>row. conv x = Inr row) \<Longrightarrow>
     \<exists>m. build_rows key conv xs acc = Inr m"
  by (induction xs arbitrary: acc) (auto simp: deref_case)

lemma build_rows_spec:
  assumes "build_rows key conv xs Map.empty = Inr m"
  shows "dom m = {k. \<exists>x \<in> set xs. key x = Some k}
     \<and> (\<forall>k. map_option Inr (m k) = map_option conv (last_with key k xs))"
proof -
  have "map_option Inr (m k) = map_option conv (last_with key k xs)" for k
    using build_rows_lookup [OF assms, of k] by (simp split: option.splits)
  with build_rows_dom [OF assms] show ?thesis by blast
qed

lemma change_fields_present:
  "change_id c \<noteq> None \<and> change_type c \<noteq> None \<Longrightarrow>
     \<exists>row. CreateDisplayRowFromChange c active = Inr row"
  unfolding not_Inl_Inr [symmetric] by (simp add: CreateDisplayRowFromChange_Inl)

lemma event_fields_present:
  "StackEvent.LogicalResourceId e \<noteq> None \<and> StackEvent.ResourceType e \<noteq> None
     \<and> StackEvent.Timestamp e \<noteq> None \<Longrightarrow>
     \<exists>row. CreateDisplayRowFromEvent e = Inr row"
  unfolding not_Inl_Inr [symmetric] by (simp add: CreateDisplayRowFromEvent_Inl)

lemma resource_fields_present:
  "StackResourceSummary.LogicalResourceId r \<noteq> None
     \<and> StackResourceSummary.ResourceType r \<noteq> None \<Longrightarrow>
     \<exists>row. CreateDisplayRowFromResource r = Inr row"
  unfolding not_Inl_Inr [symmetric] by (simp add: CreateDisplayRowFromResource_Inl)

text \<open>
  Claim C5. The map \<open>ChangeMap\<close>, \<open>EventMap\<close> or \<open>ResourceMap\<close> returns has as
  its keys exactly the logical ids that occur in the input, and under each key
  the row of the last entry of the input with that id, in the order of the
  slice and whatever the timestamps are. A map is returned whenever every entry
  has the fields its conversion reads.
\<close>

theorem row_maps_last_write_wins:
  "(ChangeMap changes active = Inr mc \<longrightarrow>
      dom mc = {k. \<exists>c \<in> set changes. change_id c = Some k}
      \<and> (\<forall>k. map_option Inr (mc k) =
             map_option (\<lambda>c. CreateDisplayRowFromChange c active)
               (last_with change_id k changes)))
   \<and> ((\<forall>c \<in> set changes. change_id c \<noteq> None \<and> change_type c \<noteq> None)
      \<longrightarrow> (\<exists>m. ChangeMap changes active = Inr m))
   \<and> (EventMap events = Inr me \<longrightarrow>
      dom me = {k. \<exists>e \<in> set events. StackEvent.LogicalResourceId e = Some k}
      \<and> (\<forall>k. map_option Inr (me k) =
             map_option CreateDisplayRowFromEvent
               (last_with StackEvent.LogicalResourceId k events)))
   \<and> ((\<forall>e \<in> set events. StackEvent.LogicalResourceId e \<noteq> None
          \<and> StackEvent.ResourceType e \<noteq> None \<and> StackEvent.Timestamp e \<noteq> None)
      \<longrightarrow> (\<exists>m. EventMap events = Inr m))
   \<and> (ResourceMap resources = Inr mr \<longrightarrow>
      dom mr = {k. \<exists>r \<in> set resources. StackResourceSummary.LogicalResourceId r = Some k}
      \<and> (\<forall>k. map_option Inr (mr k) =
             map_option CreateDisplayRowFromResource
               (last_with StackResourceSummary.LogicalResourceId k resources)))
   \<and> ((\<forall>r \<in> set resources. StackResourceSummary.LogicalResourceId r \<noteq> None
          \<and> StackResourceSummary.ResourceType r \<noteq> None)
      \<longrightarrow> (\<exists>m. ResourceMap resources = Inr m))"
proof (intro conjI impI)
  assume "ChangeMap changes active = Inr mc"
  then have "build_rows change_id (\<lambda>c. CreateDisplayRowFromChange c active) changes Map.empty
      = Inr mc"
    by (simp add: ChangeMap_def ChangeMap_loop_build_rows)
  from build_rows_spec [OF this]
  show "dom mc = {k. \<exists>c \<in> set changes. change_id c = Some k}"
    and "\<forall>k. map_option Inr (mc k) =
             map_option (\<lambda>c. CreateDisplayRowFromChange c active)
               (last_with change_id k changes)"
    by blast+
next
  assume "\<forall>c \<in> set changes. change_id c \<noteq> None \<and> change_type c \<noteq> None"
  then have "\<forall>c \<in> set changes. change_id c \<noteq> None
      \<and> (\<exists>row. CreateDisplayRowFromChange c active = Inr row)"
    using change_fields_present by blast
  from build_rows_total [OF this] show "\<exists>m. ChangeMap changes active = Inr m"
    by (simp add: ChangeMap_def ChangeMap_loop_build_rows)
next
  assume "EventMap events = Inr me"
  then have "build_rows StackEvent.LogicalResourceId CreateDisplayRowFromEvent events Map.empty
      = Inr me"
    by (simp add: EventMap_def EventMap_loop_build_rows)
  from build_rows_spec [OF this]
  show "dom me = {k. \<exists>e \<in> set events. StackEvent.LogicalResourceId e = Some k}"
    and "\<forall>k. map_option Inr (me k) =
             map_option CreateDisplayRowFromEvent
               (last_with StackEvent.LogicalResourceId k events)"
    by blast+
next
  assume "\<forall>e \<in> set events. StackEvent.LogicalResourceId e \<noteq> None
          \<and> StackEvent.ResourceType e \<noteq> None \<and> StackEvent.Timestamp e \<noteq> None"
  then have "\<forall>e \<in> set events. StackEvent.LogicalResourceId e \<noteq> None
      \<and> (\<exists>row. CreateDisplayRowFromEvent e = Inr row)"
    using event_fields_present by blast
  from build_rows_total [OF this] show "\<exists>m. EventMap events = Inr m"
    by (simp add: EventMap_def EventMap_loop_build_rows)
next
  assume "ResourceMap resources = Inr mr"
  then have "build_rows StackResourceSummary.LogicalResourceId CreateDisplayRowFromResource
      resources Map.empty = Inr mr"
    by (simp add: ResourceMap_def ResourceMap_loop_build_rows)
  from build_rows_spec [OF this]
  show "dom mr = {k. \<exists>r \<in> set resources. StackResourceSummary.LogicalResourceId r = Some k}"
    and "\<forall>k. map_option Inr (mr k) =
             map_option CreateDisplayRowFromResource
               (last_with StackResourceSummary.LogicalResourceId k resources)"
    by blast+
next
  assume "\<forall>r \<in> set resources. StackResourceSummary.LogicalResourceId r \<noteq> None
          \<and> StackResourceSummary.ResourceType r \<noteq> None"
  then have "\<forall>r \<in> set resources. StackResourceSummary.LogicalResourceId r \<noteq> None
      \<and> (\<exists>row. CreateDisplayRowFromResource r = Inr row)"
    using resource_fields_present by blast
  from build_rows_total [OF this] show "\<exists>m. ResourceMap resources = Inr m"
    by (simp add: ResourceMap_def ResourceMap_loop_build_rows)
qed

theorem row_maps_last_write_wins_witness:
  "(\<exists>m. ChangeMap sample_changes True = Inr m \<and> dom m = {''Bucket''}
        \<and> map_option DisplayRow.Action (m ''Bucket'') = Some (ChangeActionOf ''Remove''))
   \<and> (\<exists>m. EventMap sample_events = Inr m \<and> dom m = {''Bucket'', ''Queue''}
        \<and> map_option DisplayRow.Timestamp (m ''Bucket'') = Some 100)
   \<and> (\<exists>m. ResourceMap sample_resources = Inr m \<and> dom m = {''Bucket'', ''Queue''}
        \<and> map_option DisplayRow.ResourceType (m ''Bucket'') = Some ''AWS::S3::BucketPolicy'')"
proof -
  have pc: "\<forall>c \<in> set sample_changes. change_id c \<noteq> None \<and> change_type c \<noteq> None"
    by (simp add: sample_changes_def sample_change_def change_id_def change_type_def)
  have pe: "\<forall>e \<in> set sample_events. StackEvent.LogicalResourceId e \<noteq> None
          \<and> StackEvent.ResourceType e \<noteq> None \<and> StackEvent.Timestamp e \<noteq> None"
    by (simp add: sample_events_def sample_event_def)
  have pr: "\<forall>r \<in> set sample_resources. StackResourceSummary.LogicalResourceId r \<noteq> None
          \<and> StackResourceSummary.ResourceType r \<noteq> None"
    by (simp add: sample_resources_def sample_resource_def)
  note total = row_maps_last_write_wins
      [where changes = sample_changes and active = True and events = sample_events
        and resources = sample_resources and mc = Map.empty and me = Map.empty
        and mr = Map.empty]
  from total [THEN conjunct2, THEN conjunct1, THEN mp, OF pc]
  obtain mc where mc: "ChangeMap sample_changes True = Inr mc" ..
  from total [THEN conjunct2, THEN conjunct2, THEN conjunct2, THEN conjunct1, THEN mp, OF pe]
  obtain me where me: "EventMap sample_events = Inr me" ..
  from total [THEN conjunct2, THEN conjunct2, THEN conjunct2, THEN conjunct2, THEN conjunct2,
      THEN mp, OF pr]
  obtain mr where mr: "ResourceMap sample_resources = Inr mr" ..
  note inst = row_maps_last_write_wins
      [where changes = sample_changes and active = True and events = sample_events
        and resources = sample_resources and mc = mc and me = me and mr = mr]
  note sc = inst [THEN conjunct1, THEN mp, OF mc]
  note se = inst [THEN conjunct2, THEN conjunct2, THEN conjunct1, THEN mp, OF me]
  note sr = inst [THEN conjunct2, THEN conjunct2, THEN conjunct2, THEN conjunct2,
      THEN conjunct1, THEN mp, OF mr]
  note dc = sc [THEN conjunct1] and lc = sc [THEN conjunct2, THEN spec, of "''Bucket''"]
  note de = se [THEN conjunct1] and le = se [THEN conjunct2, THEN spec, of "''Bucket''"]
  note dr = sr [THEN conjunct1] and lr = sr [THEN conjunct2, THEN spec, of "''Bucket''"]
  have 1: "dom mc = {''Bucket''}"
    unfolding dc by (auto simp: sample_changes_def sample_change_def change_id_def)
  have 2: "map_option DisplayRow.Action (mc ''Bucket'') = Some (ChangeActionOf ''Remove'')"
    using lc by (cases "mc ''Bucket''")
      (auto simp: sample_changes_def sample_change_def change_id_def
        CreateDisplayRowFromChange_def)
  have 3: "dom me = {''Bucket'', ''Queue''}"
    unfolding de by (auto simp: sample_events_def sample_event_def)
  have 4: "map_option DisplayRow.Timestamp (me ''Bucket'') = Some 100"
    using le by (cases "me ''Bucket''")
      (auto simp: sample_events_def sample_event_def CreateDisplayRowFromEvent_def)
  have 5: "dom mr = {''Bucket'', ''Queue''}"
    unfolding dr by (auto simp: sample_resources_def sample_resource_def)
  have 6: "map_option DisplayRow.ResourceType (mr ''Bucket'')
      = Some ''AWS::S3::BucketPolicy''"
    using lr by (cases "mr ''Bucket''")
      (auto simp: sample_resources_def sample_resource_def CreateDisplayRowFromResource_def)
  from mc 1 2 have a: "\<exists>m. ChangeMap sample_changes True = Inr m \<and> dom m = {''Bucket''}
        \<and> map_option DisplayRow.Action (m ''Bucket'') = Some (ChangeActionOf ''Remove'')"
    by blast
  from me 3 4 have b: "\<exists>m. EventMap sample_events = Inr m \<and> dom m = {''Bucket'', ''Queue''}
        \<and> map_option DisplayRow.Timestamp (m ''Bucket'') = Some 100"
    by blast
  from mr 5 6 have c: "\<exists>m. ResourceMap sample_resources = Inr m
        \<and> dom m = {''Bucket'', ''Queue''}
        \<and> map_option DisplayRow.ResourceType (m ''Bucket'') = Some ''AWS::S3::BucketPolicy''"
    by blast
  from a b c show ?thesis by (intro conjI)
qed

section \<open>Activating the rows of a map\<close>

lemma ActivateDisplayRows_loop_spec:
  assumes "d < length h" and "valid_ref h src" and "src \<noteq> MapRef d"
  shows "\<exists>h'. ActivateDisplayRows_loop ks src (MapRef d) h = Inr h'
     \<and> length h' = length h
     \<and> (\<forall>i. i \<noteq> d \<longrightarrow> h' ! i = h ! i)
     \<and> (\<forall>k. (h' ! d) k =
           (if k \<in> set ks \<and> map_contents h src k \<noteq> None
            then map_option (\<lambda>event. event\<lparr>Active := True\<rparr>) (map_contents h src k)
            else (h ! d) k))"
  using assms
proof (induction ks arbitrary: h)
  case Nil
  then show ?case by simp
next
  case (Cons k ks)
  show ?case
  proof (cases "map_contents h src k")
    case None
    from Cons.IH [OF Cons.prems] obtain h' where
      "ActivateDisplayRows_loop ks src (MapRef d) h = Inr h'" "length h' = length h"
      "\<forall>i. i \<noteq> d \<longrightarrow> h' ! i = h ! i"
      "\<forall>k. (h' ! d) k =
           (if k \<in> set ks \<and> map_contents h src k \<noteq> None
            then map_option (\<lambda>event. event\<lparr>Active := True\<rparr>) (map_contents h src k)
            else (h ! d) k)"
      by blast
    with None show ?thesis by auto
  next
    case (Some event)
    define h1 where "h1 = h[d := (h ! d)(k \<mapsto> event\<lparr>Active := True\<rparr>)]"
    have len: "d < length h1" and val: "valid_ref h1 src"
      using Cons.prems by (cases src; simp add: h1_def)+
    have src: "map_contents h1 src = map_contents h src"
      using Cons.prems by (cases src) (auto simp: h1_def)
    have step: "ActivateDisplayRows_loop (k # ks) src (MapRef d) h
        = ActivateDisplayRows_loop ks src (MapRef d) h1"
      using Some Cons.prems by (simp add: h1_def)
    from Cons.IH [OF len val Cons.prems(3)] obtain h' where
      h': "ActivateDisplayRows_loop ks src (MapRef d) h1 = Inr h'" "length h' = length h1"
      "\<forall>i. i \<noteq> d \<longrightarrow> h' ! i = h1 ! i"
      "\<forall>k. (h' ! d) k =
           (if k \<in> set ks \<and> map_contents h1 src k \<noteq> None
            then map_option (\<lambda>event. event\<lparr>Active := True\<rparr>) (map_contents h1 src k)
            else (h1 ! d) k)"
      by blast
    have "length h' = length h" using h'(2) by (simp add: h1_def)
    moreover have "\<forall>i. i \<noteq> d \<longrightarrow> h' ! i = h ! i"
      using h'(3) by (simp add: h1_def)
    moreover have "\<forall>k'. (h' ! d) k' =
           (if k' \<in> set (k # ks) \<and> map_contents h src k' \<noteq> None
            then map_option (\<lambda>event. event\<lparr>Active := True\<rparr>) (map_contents h src k')
            else (h ! d) k')"
      using h'(4) Some Cons.prems(1) unfolding src by (auto simp: h1_def)
    ultimately show ?thesis using step h'(1) by simp
  qed
qed

text \<open>
  Claim C4. \<open>ActivateDisplayRows\<close> returns a map that did not exist before the
  call, with the keys of the map it was given and every row active (each row
  is the given one with \<open>Active\<close> set); every map that existed before the call,
  the given one among them, holds after the call what it held before. This is
  so in whatever order the run visits the keys.
\<close>

theorem ActivateDisplayRows_copies:
  assumes "valid_ref h displayRows"
    and "set order = dom (map_contents h displayRows)"
  shows "\<exists>activated h'.
      ActivateDisplayRows h displayRows order = Inr (activated, h')
      \<and> activated \<noteq> displayRows \<and> \<not> valid_ref h activated \<and> valid_ref h' activated
      \<and> dom (map_contents h' activated) = dom (map_contents h displayRows)
      \<and> (\<forall>k row. map_contents h' activated k = Some row \<longrightarrow> Active row)
      \<and> (\<forall>k. map_contents h' activated k =
            map_option (\<lambda>event. event\<lparr>Active := True\<rparr>) (map_contents h displayRows k))
      \<and> (\<forall>r. valid_ref h r \<longrightarrow> map_contents h' r = map_contents h r)"
proof -
  define d where "d = length h"
  define h1 where "h1 = h @ [Map.empty :: row_map]"
  have mk: "make_map h = (MapRef d, h1)"
    by (simp add: make_map_def d_def h1_def)
  have d: "d < length h1" by (simp add: d_def h1_def)
  have val: "valid_ref h1 displayRows"
    using assms(1) by (cases displayRows) (simp_all add: h1_def)
  have ne: "displayRows \<noteq> MapRef d"
    using assms(1) by (cases displayRows) (simp_all add: d_def)
  have src: "map_contents h1 displayRows = map_contents h displayRows"
    using assms(1) by (cases displayRows) (simp_all add: h1_def nth_append)
  from ActivateDisplayRows_loop_spec [OF d val ne, of order] obtain h' where
    loop: "ActivateDisplayRows_loop order displayRows (MapRef d) h1 = Inr h'"
    and len: "length h' = length h1"
    and others: "\<forall>i. i \<noteq> d \<longrightarrow> h' ! i = h1 ! i"
    and new: "\<forall>k. (h' ! d) k =
           (if k \<in> set order \<and> map_contents h1 displayRows k \<noteq> None
            then map_option (\<lambda>event. event\<lparr>Active := True\<rparr>) (map_contents h1 displayRows k)
            else (h1 ! d) k)"
    by blast
  have res: "ActivateDisplayRows h displayRows order = Inr (MapRef d, h')"
    by (simp add: ActivateDisplayRows_def mk loop)
  have contents: "map_contents h' (MapRef d) k =
      map_option (\<lambda>event. event\<lparr>Active := True\<rparr>) (map_contents h displayRows k)" for k
  proof -
    have "map_contents h' (MapRef d) k = (h' ! d) k"
      using len d by simp
    also have "\<dots> = map_option (\<lambda>event. event\<lparr>Active := True\<rparr>) (map_contents h displayRows k)"
      using new assms(2) unfolding src by (auto simp: h1_def d_def dom_def)
    finally show ?thesis .
  qed
  have fresh: "\<not> valid_ref h (MapRef d)" "valid_ref h' (MapRef d)"
    using len d by (simp_all add: d_def)
  have doms: "dom (map_contents h' (MapRef d)) = dom (map_contents h displayRows)"
    by (auto simp: contents dom_def simp del: map_contents.simps)
  have active: "\<forall>k row. map_contents h' (MapRef d) k = Some row \<longrightarrow> Active row"
    by (auto simp: contents simp del: map_contents.simps)
  have kept: "\<forall>r. valid_ref h r \<longrightarrow> map_contents h' r = map_contents h r"
  proof (intro allI impI)
    fix r assume r: "valid_ref h r"
    show "map_contents h' r = map_contents h r"
    proof (cases r)
      case NilMap
      then show ?thesis by simp
    next
      case (MapRef i)
      with r have i: "i < length h" by simp
      then have "i \<noteq> d" by (simp add: d_def)
      with others have "h' ! i = h1 ! i" by blast
      with i len MapRef show ?thesis by (simp add: h1_def nth_append)
    qed
  qed
  from res ne fresh doms active contents kept show ?thesis
    by (intro exI [of _ "MapRef d"] exI [of _ h']) auto
qed

theorem ActivateDisplayRows_copies_witness:
  "\<exists>h'. ActivateDisplayRows sample_heap (MapRef 0) [''Queue'', ''Bucket''] = Inr (MapRef 1, h')
     \<and> dom (map_contents h' (MapRef 1)) = {''Bucket'', ''Queue''}
     \<and> map_option Active (map_contents h' (MapRef 1) ''Bucket'') = Some True
     \<and> map_option Active (map_contents h' (MapRef 1) ''Queue'') = Some True
     \<and> map_option Active (map_contents h' (MapRef 0) ''Bucket'') = Some False
     \<and> map_contents h' (MapRef 0) = map_contents sample_heap (MapRef 0)"
proof -
  have v: "valid_ref sample_heap (MapRef 0)"
    by (simp add: sample_heap_def)
  have o: "set [''Queue'', ''Bucket''] = dom (map_contents sample_heap (MapRef 0))"
    by (auto simp: sample_heap_def)
  from ActivateDisplayRows_copies [OF v o] obtain activated h' where
    res: "ActivateDisplayRows sample_heap (MapRef 0) [''Queue'', ''Bucket'']
        = Inr (activated, h')"
    and doms: "dom (map_contents h' activated) = dom (map_contents sample_heap (MapRef 0))"
    and contents: "\<forall>k. map_contents h' activated k =
            map_option (\<lambda>event. event\<lparr>Active := True\<rparr>)
              (map_contents sample_heap (MapRef 0) k)"
    and kept: "\<forall>r. valid_ref sample_heap r \<longrightarrow>
            map_contents h' r = map_contents sample_heap r"
    by blast
  have act: "activated = MapRef 1"
    using res by (auto simp: ActivateDisplayRows_def make_map_def sample_heap_def
        split: sum.splits)
  have k0: "map_contents h' (MapRef 0) = map_contents sample_heap (MapRef 0)"
    using kept v by blast
  have 1: "dom (map_contents h' (MapRef 1)) = {''Bucket'', ''Queue''}"
    using doms unfolding act by (auto simp: sample_heap_def)
  have 2: "map_option Active (map_contents h' (MapRef 1) ''Bucket'') = Some True"
    "map_option Active (map_contents h' (MapRef 1) ''Queue'') = Some True"
    using contents unfolding act by (simp_all add: sample_heap_def)
  have 3: "map_option Active (map_contents h' (MapRef 0) ''Bucket'') = Some False"
    unfolding k0 by (simp add: sample_heap_def)
  from res act 1 2 3 k0 show ?thesis by blast
qed

section \<open>The pagination collector\<close>

lemma GetResourcesFromPaginator_loop_spec:
  "GetResourcesFromPaginator_loop p acc = (resources, p') \<Longrightarrow>
     resources = acc @ pages_before_failure (responses p)
     \<and> Err p' = (case first_failure (responses p) of None \<Rightarrow> Err p | Some e \<Rightarrow> Some e)
     \<and> responses p' = after_failure (responses p)"
proof (induction p acc arbitrary: resources p' rule: GetResourcesFromPaginator_loop.induct)
  case (1 paginator acc)
  show ?case
  proof (cases "responses paginator")
    case Nil
    with "1.prems" show ?thesis
      by (simp add: Next_def Err_def)
  next
    case (Cons r rest)
    show ?thesis
    proof (cases r)
      case (Failure e)
      with Cons "1.prems" show ?thesis
        by (auto simp: Next_def Err_def)
    next
      case (Page page)
      define q where "q = paginator\<lparr>responses := rest, curPage := page\<rparr>"
      have nxt: "Next paginator = (True, q)"
        using Cons Page by (simp add: Next_def q_def)
      have run: "GetResourcesFromPaginator_loop q (acc @ CurrentPage q) = (resources, p')"
        using "1.prems" nxt by simp
      from "1.IH" [OF nxt [symmetric] TrueI run]
      have "resources = (acc @ CurrentPage q) @ pages_before_failure (responses q)
        \<and> Err p' = (case first_failure (responses q) of None \<Rightarrow> Err q | Some e \<Rightarrow> Some e)
        \<and> responses p' = after_failure (responses q)"
        by simp
      then show ?thesis
        using Cons Page by (simp add: q_def CurrentPage_def Err_def split: option.splits)
    qed
  qed
qed

text \<open>
  Claim C1, as amended. \<open>GetResourcesFromPaginator\<close> returns the resources of
  the pages fetched before the first failed request, all of them when no request
  fails, and nothing else: it has no error result. A failure stops it; the
  error is left in the paginator, where \<open>Err\<close> reads it, and the answers after
  the failed request are left unasked, so there is no retry.
\<close>

theorem GetResourcesFromPaginator_stops_at_failure:
  "fst (GetResourcesFromPaginator p) = pages_before_failure (responses p)
   \<and> Err (snd (GetResourcesFromPaginator p)) =
       (case first_failure (responses p) of None \<Rightarrow> Err p | Some e \<Rightarrow> Some e)
   \<and> responses (snd (GetResourcesFromPaginator p)) = after_failure (responses p)"
  using GetResourcesFromPaginator_loop_spec [of p "[]"
      "fst (GetResourcesFromPaginator p)" "snd (GetResourcesFromPaginator p)"]
  by (simp add: GetResourcesFromPaginator_def)

theorem GetResourcesFromPaginator_stops_at_failure_witness:
  "fst (GetResourcesFromPaginator failing_paginator) = [sample_resource]
   \<and> Err (snd (GetResourcesFromPaginator failing_paginator))
       = Some (FetchError ''Throttling: Rate exceeded'')
   \<and> responses (snd (GetResourcesFromPaginator failing_paginator)) =
       [Page [sample_resource\<lparr>StackResourceSummary.LogicalResourceId := Some ''Queue''\<rparr>]]"
  using GetResourcesFromPaginator_stops_at_failure [of failing_paginator]
  by (simp add: failing_paginator_def)

text \<open>
  Claim C1 as stated fails. The second request of \<open>failing_paginator\<close> fails, and
  the collector returns the one resource of the first page, the very result it
  returns for \<open>short_paginator\<close>, whose listing ends after that page with no
  failure: the caller is handed a partial listing as an ordinary result.
\<close>

theorem GetResourcesFromPaginator_error_not_returned:
  "first_failure (responses failing_paginator) = Some (FetchError ''Throttling: Rate exceeded'')
   \<and> first_failure (responses short_paginator) = None
   \<and> fst (GetResourcesFromPaginator failing_paginator) = [sample_resource]
   \<and> fst (GetResourcesFromPaginator failing_paginator)
       = fst (GetResourcesFromPaginator short_paginator)"
  by (simp add: GetResourcesFromPaginator_def failing_paginator_def short_paginator_def
      Next_def CurrentPage_def)

section \<open>Loading tags and parameters\<close>

text \<open>
  Claim C2, as amended. For a location that holds no file, \<open>GetTags\<close> and
  \<open>GetParameters\<close> return the empty sequence and no error. For a file that is
  read and whose contents the decoder rejects, they return an error whose
  message is the fixed text of the function, coloured, followed by the link to
  the documentation: the same message whatever the decoder's error is.
\<close>

theorem loaders_missing_file_and_malformed_json:
  "(fs location = None \<longrightarrow>
      GetTags (ioutil_ReadFile fs) UnmarshalTags colors_Error colors_Docs location = ([], None)
      \<and> GetParameters (ioutil_ReadFile fs) UnmarshalParameters colors_Error colors_Docs location
          = ([], None))
   \<and> (fs location = Some f \<and> readable f \<and> UnmarshalTags (contents f) = Inl e1 \<longrightarrow>
      GetTags (ioutil_ReadFile fs) UnmarshalTags colors_Error colors_Docs location =
        ([], Some (errors_New (Sprintf_s_nl_s
           (colors_Error
              ''Unable to load tags. tags must be valid JSON and only of type string'')
           (colors_Docs
              ''https://docs.aws.amazon.com/AWSCloudFormation/latest/UserGuide/aws-properties-resource-tags.html'')))))
   \<and> (fs location = Some f \<and> readable f \<and> UnmarshalParameters (contents f) = Inl e2 \<longrightarrow>
      GetParameters (ioutil_ReadFile fs) UnmarshalParameters colors_Error colors_Docs location =
        ([], Some (errors_New (Sprintf_s_nl_s
           (colors_Error
              ''Unable to load parameters. Parameters must be valid JSON and only of type string'')
           (colors_Docs
              ''https://aws.amazon.com/blogs/devops/passing-parameters-to-cloudformation-stacks-with-the-aws-cli-and-powershell/'')))))"
  by (simp add: GetTags_def GetParameters_def ioutil_ReadFile_def Let_def)

theorem loaders_missing_file_and_malformed_json_witness:
  "GetTags (ioutil_ReadFile sample_fs) decode_empty_array id id ''absent.json'' = ([], None)
   \<and> GetParameters (ioutil_ReadFile sample_fs) decode_empty_array id id ''absent.json''
       = ([], None)
   \<and> GetTags (ioutil_ReadFile sample_fs) decode_empty_array id id ''tags.json'' =
        ([], Some (errors_New (Sprintf_s_nl_s
           ''Unable to load tags. tags must be valid JSON and only of type string''
           ''https://docs.aws.amazon.com/AWSCloudFormation/latest/UserGuide/aws-properties-resource-tags.html'')))
   \<and> GetParameters (ioutil_ReadFile sample_fs) decode_empty_array id id ''tags.json'' =
        ([], Some (errors_New (Sprintf_s_nl_s
           ''Unable to load parameters. Parameters must be valid JSON and only of type string''
           ''https://aws.amazon.com/blogs/devops/passing-parameters-to-cloudformation-stacks-with-the-aws-cli-and-powershell/'')))"
proof -
  have absent: "sample_fs ''absent.json'' = None"
    by (simp add: sample_fs_def)
  have present: "sample_fs ''tags.json'' = Some \<lparr>contents = ''{'', readable = True\<rparr>"
    by (simp add: sample_fs_def)
  have rejected: "decode_empty_array (contents \<lparr>contents = ''{'', readable = True\<rparr>)
      = Inl SyntaxError"
    by (simp add: decode_empty_array_def)
  have rd: "readable \<lparr>contents = ''{'', readable = True\<rparr>"
    by simp
  note a = loaders_missing_file_and_malformed_json
      [where fs = sample_fs and location = "''absent.json''"
        and UnmarshalTags = decode_empty_array and UnmarshalParameters = decode_empty_array
        and colors_Error = id and colors_Docs = id
        and f = "\<lparr>contents = ''{'', readable = True\<rparr>"
        and ?e1.0 = SyntaxError and ?e2.0 = SyntaxError,
        THEN conjunct1, THEN mp, OF absent]
  note b = loaders_missing_file_and_malformed_json
      [where fs = sample_fs and location = "''tags.json''"
        and UnmarshalTags = decode_empty_array and UnmarshalParameters = decode_empty_array
        and colors_Error = id and colors_Docs = id
        and f = "\<lparr>contents = ''{'', readable = True\<rparr>"
        and ?e1.0 = SyntaxError and ?e2.0 = SyntaxError]
  have hyp: "sample_fs ''tags.json'' = Some \<lparr>contents = ''{'', readable = True\<rparr>
      \<and> readable \<lparr>contents = ''{'', readable = True\<rparr>
      \<and> decode_empty_array (contents \<lparr>contents = ''{'', readable = True\<rparr>)
          = Inl SyntaxError"
    using present rd rejected by (intro conjI)
  note b1 = b [THEN conjunct2, THEN conjunct1, THEN mp, OF hyp]
  note b2 = b [THEN conjunct2, THEN conjunct2, THEN mp, OF hyp]
  from a [THEN conjunct1] a [THEN conjunct2] b1 b2 show ?thesis
    by simp
qed

text \<open>
  Claim C2 as stated fails. The file at \<^verbatim>\<open>locked.json\<close> exists and holds
  malformed JSON, a lone opening brace, but the process may not read it: the
  two functions return the empty sequence and no error.
\<close>

theorem loaders_unreadable_malformed_file_no_error:
  "map_option contents (sample_fs ''locked.json'') = Some ''{''
   \<and> decode_empty_array ''{'' = (Inl SyntaxError :: json_error + Tag list)
   \<and> GetTags (ioutil_ReadFile sample_fs) decode_empty_array id id ''locked.json'' = ([], None)
   \<and> GetParameters (ioutil_ReadFile sample_fs) decode_empty_array id id ''locked.json''
       = ([], None)"
  by (simp add: GetTags_def GetParameters_def ioutil_ReadFile_def Let_def sample_fs_def
      decode_empty_array_def)

text \<open>
  Claim C10. Whatever error the read of the file gives, missing file or not,
  \<open>GetTags\<close> and \<open>GetParameters\<close> return the empty sequence and no error.
\<close>

theorem loaders_ignore_read_errors:
  "(ReadFile location = Inl e \<longrightarrow>
      GetTags ReadFile UnmarshalTags colors_Error colors_Docs location = ([], None))
   \<and> (ReadFile location = Inl e \<longrightarrow>
      GetParameters ReadFile UnmarshalParameters colors_Error colors_Docs location
        = ([], None))"
  by (simp add: GetTags_def GetParameters_def Let_def)

theorem loaders_ignore_read_errors_witness:
  "ioutil_ReadFile sample_fs ''locked.json'' = Inl ErrPermission
   \<and> GetTags (ioutil_ReadFile sample_fs) decode_empty_array id id ''locked.json'' = ([], None)
   \<and> GetParameters (ioutil_ReadFile sample_fs) decode_empty_array id id ''locked.json''
       = ([], None)"
proof -
  have rd: "ioutil_ReadFile sample_fs ''locked.json'' = Inl ErrPermission"
    by (simp add: ioutil_ReadFile_def sample_fs_def)
  note inst = loaders_ignore_read_errors
      [where ReadFile = "ioutil_ReadFile sample_fs" and location = "''locked.json''"
        and e = ErrPermission and UnmarshalTags = decode_empty_array
        and UnmarshalParameters = decode_empty_array
        and colors_Error = id and colors_Docs = id]
  from rd inst [THEN conjunct1, THEN mp, OF rd] inst [THEN conjunct2, THEN mp, OF rd]
  show ?thesis by (intro conjI)
qed

end
